theory Spec2Isabelle
  imports Complex_Main
begin

section \<open>The static file server script \<open>server.py\<close>\<close>

text \<open>
  The script has three parts: the request handler class \<open>JSHandler\<close>, which overrides
  \<open>guess_type\<close>; the function \<open>start_server\<close>; and the script body run under
  \<open>__name__ == '__main__'\<close>. Strings are byte lists; the only string tests of the
  source compare against ASCII literals, so reading a Python \<open>str\<close> as its UTF-8
  bytes does not change their result.
\<close>

subsection \<open>\<open>JSHandler.guess_type\<close>\<close>

text \<open>Python's \<open>str.endswith\<close> with a single suffix and no bounds.\<close>

definition endswith :: "string \<Rightarrow> string \<Rightarrow> bool" where
  "endswith s suffix =
     (length suffix \<le> length s \<and> drop (length s - length suffix) s = suffix)"

text \<open>
  \<^verbatim>\<open>
  def guess_type(self, path):
      if path.endswith('.js'):
          return 'application/javascript'
      return super().guess_type(path)
  \<close>
  The inherited method \<open>SimpleHTTPRequestHandler.guess_type\<close> belongs to the standard
  library, not to the script; it is the parameter \<open>super_guess_type\<close>.
\<close>

definition guess_type :: "(string \<Rightarrow> string) \<Rightarrow> string \<Rightarrow> string" where
  "guess_type super_guess_type path =
     (if endswith path ''.js'' then ''application/javascript''
      else super_guess_type path)"

subsection \<open>Results, exceptions and effects\<close>

text \<open>
  The exception classes the script meets. \<open>OSError\<close> stands for the class and all its
  subclasses, which is what \<open>except OSError\<close> catches; \<open>OverflowError\<close> is what the
  socket layer raises for a port outside \<open>0..65535\<close>; \<open>Other_exception\<close> names any
  class that is none of the others.
\<close>

datatype exn = OSError | KeyboardInterrupt | ValueError | OverflowError
  | Other_exception string

text \<open>
  How a call ends: it returns, it raises, or it never comes back (the serve loop runs
  until something raises in it).
\<close>

datatype outcome = Returns | Raises exn | Blocks

datatype callback = Webbrowser_open string

text \<open>
  What the script does to the outside world, in program order:
  \<open>Bind host port\<close> is the construction \<open>HTTPServer((host, port), JSHandler)\<close>, which
  binds and listens; \<open>Print s\<close> is \<open>print(s)\<close>; \<open>Timer_start d f\<close> is
  \<open>Timer(d, f).start()\<close> with \<open>d\<close> in seconds; \<open>Serve_forever\<close> is the call
  \<open>server.serve_forever()\<close>.
\<close>

datatype event =
    Bind string int
  | Print string
  | Timer_start real callback
  | Serve_forever

text \<open>
  The answers of the world and of the standard library to the script:
  how binding \<open>(host, port)\<close> ends, how the serve loop ends, and what \<open>int\<close>
  makes of a string (\<open>None\<close> when it raises \<open>ValueError\<close>).
\<close>

record env =
  bind_result :: "string \<Rightarrow> int \<Rightarrow> outcome"
  serve_forever_result :: outcome
  int_parse :: "string \<Rightarrow> int option"

subsection \<open>Formatting an integer\<close>

text \<open>
  \<open>f"{port}"\<close> is \<open>str(port)\<close>: the decimal digits, with a leading minus sign for a
  negative number.
\<close>

fun digits :: "nat \<Rightarrow> string" where
  "digits n =
     (if n < 10 then [''0123456789'' ! n]
      else digits (n div 10) @ [''0123456789'' ! (n mod 10)])"

declare digits.simps [simp del]

definition str_int :: "int \<Rightarrow> string" where
  "str_int i = (if i < 0 then CHR ''-'' # digits (nat (- i)) else digits (nat i))"

subsection \<open>\<open>start_server\<close>\<close>

text \<open>
  The two \<open>except\<close> clauses of \<open>start_server\<close>, tried in the order of the source,
  for an exception raised in the \<open>try\<close> block after the effects \<open>evs\<close>:
  \<^verbatim>\<open>
  except OSError:
      print(f"Port {port} in use. Try: python server.py {port + 1}")
  except KeyboardInterrupt:
      print("\nServer stopped")
  \<close>
  Any other exception leaves the function.
\<close>

fun except_clauses :: "int \<Rightarrow> event list \<Rightarrow> exn \<Rightarrow> event list \<times> outcome" where
  "except_clauses port evs OSError =
     (evs @ [Print (''Port '' @ str_int port @ '' in use. Try: python server.py ''
                    @ str_int (port + 1))], Returns)"
| "except_clauses port evs KeyboardInterrupt =
     (evs @ [Print (CHR 0x0A # ''Server stopped'')], Returns)"
| "except_clauses port evs e = (evs, Raises e)"

text \<open>
  \<^verbatim>\<open>
  def start_server(port=8000):
      try:
          server = HTTPServer(('localhost', port), JSHandler)
          url = f"http://localhost:{port}/index.html"
          print(f"Server running at {url}")
          print("Press Ctrl+C to stop")
          Timer(1.0, lambda: webbrowser.open(url)).start()
          server.serve_forever()
      except OSError: ...
      except KeyboardInterrupt: ...
  \<close>
  The argument is \<open>None\<close> when the caller leaves it out, which selects the default.
  Only the two calls that wait on the outside world, the bind and the serve loop, are
  given a way to fail; formatting, \<open>print\<close> and starting the timer go through. The
  interval \<open>1.0\<close> of the timer is the real number 1.
\<close>

definition start_server :: "env \<Rightarrow> int option \<Rightarrow> event list \<times> outcome" where
  "start_server world arg =
     (let port = (case arg of None \<Rightarrow> 8000 | Some p \<Rightarrow> p) in
      case bind_result world ''localhost'' port of
        Raises e \<Rightarrow> except_clauses port [Bind ''localhost'' port] e
      | Blocks \<Rightarrow> ([Bind ''localhost'' port], Blocks)
      | Returns \<Rightarrow>
          (let url = ''http://localhost:'' @ str_int port @ ''/index.html'';
               evs = [Bind ''localhost'' port,
                      Print (''Server running at '' @ url),
                      Print ''Press Ctrl+C to stop'',
                      Timer_start 1 (Webbrowser_open url),
                      Serve_forever]
           in case serve_forever_result world of
                Raises e \<Rightarrow> except_clauses port evs e
              | Blocks \<Rightarrow> (evs, Blocks)
              | Returns \<Rightarrow> (evs, Returns)))"

subsection \<open>The script body\<close>

text \<open>
  \<^verbatim>\<open>
  port = int(sys.argv[1]) if len(sys.argv) > 1 else 8000
  start_server(port)
  \<close>
  \<open>script_port\<close> is the first line: the port, or the exception \<open>int\<close> raises.
\<close>

definition script_port :: "env \<Rightarrow> string list \<Rightarrow> exn + int" where
  "script_port world argv =
     (if length argv > 1
      then (case int_parse world (argv ! 1) of
              None \<Rightarrow> Inl ValueError
            | Some n \<Rightarrow> Inr n)
      else Inr 8000)"

definition main :: "env \<Rightarrow> string list \<Rightarrow> event list \<times> outcome" where
  "main world argv =
     (case script_port world argv of
        Inl e \<Rightarrow> ([], Raises e)
      | Inr port \<Rightarrow> start_server world (Some port))"

text \<open>
  The interpreter's exit status: zero when the script runs to its end, non-zero when
  an exception leaves it; a script that blocks has not exited.
\<close>

datatype exit_status = Exit_zero | Exit_nonzero

fun process_exit :: "outcome \<Rightarrow> exit_status option" where
  "process_exit Returns = Some Exit_zero"
| "process_exit (Raises e) = Some Exit_nonzero"
| "process_exit Blocks = None"

subsection \<open>Observations on a run\<close>

fun is_timer :: "event \<Rightarrow> bool" where
  "is_timer (Timer_start d f) = True"
| "is_timer ev = False"

fun is_print :: "event \<Rightarrow> bool" where
  "is_print (Print s) = True"
| "is_print ev = False"

subsection \<open>Sample worlds\<close>

text \<open>
  The decimal, ASCII part of Python's \<open>int\<close> on a string: surrounding white space is
  dropped, one sign is allowed, and single underscores may separate digits. The
  theorems below hold for every \<open>int_parse\<close>; this one serves the sample runs.
\<close>

definition is_space :: "char \<Rightarrow> bool" where
  "is_space c = (c \<in> set [CHR '' '', CHR 0x09, CHR 0x0A, CHR 0x0B, CHR 0x0C, CHR 0x0D])"

definition strip :: "string \<Rightarrow> string" where
  "strip s = rev (dropWhile is_space (rev (dropWhile is_space s)))"

definition digit_val :: "char \<Rightarrow> nat option" where
  "digit_val c =
     (let k = (of_char c :: nat) in if 48 \<le> k \<and> k \<le> 57 then Some (k - 48) else None)"

fun dec_digits :: "nat \<Rightarrow> string \<Rightarrow> nat option" where
  "dec_digits acc [] = Some acc"
| "dec_digits acc (c # cs) =
     (if c = CHR ''_''
      then (case cs of
              [] \<Rightarrow> None
            | d # ds \<Rightarrow> (case digit_val d of
                          None \<Rightarrow> None
                        | Some v \<Rightarrow> dec_digits (10 * acc + v) ds))
      else (case digit_val c of
              None \<Rightarrow> None
            | Some v \<Rightarrow> dec_digits (10 * acc + v) cs))"

definition dec_nat :: "string \<Rightarrow> nat option" where
  "dec_nat s =
     (case s of
        [] \<Rightarrow> None
      | c # cs \<Rightarrow> (case digit_val c of
                    None \<Rightarrow> None
                  | Some v \<Rightarrow> dec_digits v cs))"

definition py_int :: "string \<Rightarrow> int option" where
  "py_int s =
     (case strip s of
        [] \<Rightarrow> None
      | c # cs \<Rightarrow>
          if c = CHR ''-'' then map_option (\<lambda>n. - int n) (dec_nat cs)
          else if c = CHR ''+'' then map_option int (dec_nat cs)
          else map_option int (dec_nat (c # cs)))"

text \<open>A world where every port is taken, one where the user interrupts the serve
  loop, and one where the server keeps serving.\<close>

definition port_taken :: env where
  "port_taken =
     \<lparr>bind_result = (\<lambda>host port. Raises OSError),
      serve_forever_result = Blocks,
      int_parse = py_int\<rparr>"

definition interrupted :: env where
  "interrupted =
     \<lparr>bind_result = (\<lambda>host port. Returns),
      serve_forever_result = Raises KeyboardInterrupt,
      int_parse = py_int\<rparr>"

definition serving :: env where
  "serving =
     \<lparr>bind_result = (\<lambda>host port. Returns),
      serve_forever_result = Blocks,
      int_parse = py_int\<rparr>"

section \<open>Properties\<close>

subsection \<open>Helper facts\<close>

text \<open>\<open>endswith\<close> is the usual notion of a suffix.\<close>

lemma endswith_iff: "endswith s suffix \<longleftrightarrow> (\<exists>pre. s = pre @ suffix)"
proof
  assume "endswith s suffix"
  then have "s = take (length s - length suffix) s @ suffix"
    by (metis append_take_drop_id endswith_def)
  then show "\<exists>pre. s = pre @ suffix" ..
next
  assume "\<exists>pre. s = pre @ suffix"
  then show "endswith s suffix" by (auto simp: endswith_def)
qed

lemma endswith_same_length:
  assumes "endswith s a" and "endswith s b" and "length a = length b"
  shows "a = b"
  using assms by (auto simp: endswith_def)

text \<open>Whatever the world answers, the first thing \<open>start_server\<close> does is to bind
  \<open>localhost\<close> at its port.\<close>

lemma start_server_begins_with_bind:
  "take 1 (fst (start_server world (Some P))) = [Bind ''localhost'' P]"
proof (cases "bind_result world ''localhost'' P")
  case Returns
  then show ?thesis
  proof (cases "serve_forever_result world")
    case (Raises e)
    with Returns show ?thesis by (cases e) (simp_all add: start_server_def Let_def)
  qed (simp_all add: start_server_def Let_def)
next
  case (Raises e)
  then show ?thesis by (cases e) (simp_all add: start_server_def)
next
  case Blocks
  then show ?thesis by (simp add: start_server_def)
qed

lemma py_int_8080: "py_int ''8080'' = Some 8080"
  by (simp add: py_int_def strip_def is_space_def dec_nat_def digit_val_def)

lemma py_int_abc: "py_int ''abc'' = None"
  by (simp add: py_int_def strip_def is_space_def dec_nat_def digit_val_def)

text \<open>The port numbers of the sample runs, formatted.\<close>

lemma str_int_8000: "str_int 8000 = ''8000''"
  by (simp add: str_int_def digits.simps)

lemma str_int_8001: "str_int 8001 = ''8001''"
  by (simp add: str_int_def digits.simps)

text \<open>An \<open>except\<close> clause only adds to what the \<open>try\<close> block did, and starts no timer.\<close>

lemma except_clauses_appends:
  "\<exists>tail. fst (except_clauses port evs e) = evs @ tail \<and> filter is_timer tail = []"
  by (cases e) simp_all

subsection \<open>Content types\<close>

text \<open>
  C1. For every path that ends in \<open>.js\<close>, \<open>guess_type\<close> returns
  \<open>application/javascript\<close>. The result depends on the path alone: the method never
  reads the file, and the inherited method is not consulted, whatever it would say.
\<close>

theorem guess_type_js:
  "endswith path ''.js'' \<Longrightarrow>
     guess_type super_guess_type path = ''application/javascript''"
  by (simp add: guess_type_def)

theorem guess_type_js_witness:
  "endswith ''/static/app.js'' ''.js'' \<and>
   guess_type (\<lambda>p. ''text/plain'') ''/static/app.js'' = ''application/javascript''"
proof -
  have h: "endswith ''/static/app.js'' ''.js''" by (simp add: endswith_def)
  show ?thesis using h guess_type_js [OF h, of "\<lambda>p. ''text/plain''"] by simp
qed

text \<open>
  C6. For every path that does not end in \<open>.js\<close>, \<open>guess_type\<close> is the inherited
  method at that path: whatever the standard mapping gives for \<open>.html\<close> is the
  result for an \<open>.html\<close> path, and where it falls back to the generic binary type
  for an unknown extension, so does the handler.
\<close>

theorem guess_type_delegates:
  "\<not> endswith path ''.js'' \<Longrightarrow> guess_type super_guess_type path = super_guess_type path"
  by (simp add: guess_type_def)

theorem guess_type_delegates_witness:
  "\<not> endswith ''/index.html'' ''.js'' \<and> \<not> endswith ''/data.xyz'' ''.js'' \<and>
   guess_type (\<lambda>p. if endswith p ''.html'' then ''text/html''
                    else ''application/octet-stream'') ''/index.html'' = ''text/html'' \<and>
   guess_type (\<lambda>p. if endswith p ''.html'' then ''text/html''
                    else ''application/octet-stream'') ''/data.xyz''
     = ''application/octet-stream''"
proof -
  have h1: "\<not> endswith ''/index.html'' ''.js''" by (simp add: endswith_def)
  have h2: "\<not> endswith ''/data.xyz'' ''.js''" by (simp add: endswith_def)
  show ?thesis
    using h1 h2
      guess_type_delegates [OF h1, of "\<lambda>p. if endswith p ''.html'' then ''text/html''
                    else ''application/octet-stream''"]
      guess_type_delegates [OF h2, of "\<lambda>p. if endswith p ''.html'' then ''text/html''
                    else ''application/octet-stream''"]
    by (simp add: endswith_def)
qed

text \<open>
  C10. The override is case-sensitive: a path ending in \<open>.JS\<close>, \<open>.Js\<close> or \<open>.jS\<close>
  does not end in \<open>.js\<close>, so the forced result is not taken and the inherited method
  answers.
\<close>

theorem guess_type_case_sensitive:
  "suffix \<in> {''.JS'', ''.Js'', ''.jS''} \<Longrightarrow> endswith path suffix \<Longrightarrow>
     \<not> endswith path ''.js'' \<and> guess_type super_guess_type path = super_guess_type path"
proof -
  assume mem: "suffix \<in> {''.JS'', ''.Js'', ''.jS''}" and e: "endswith path suffix"
  from mem have len: "length suffix = length ''.js''" and ne: "suffix \<noteq> ''.js''"
    by auto
  have "\<not> endswith path ''.js''"
  proof
    assume j: "endswith path ''.js''"
    from endswith_same_length [OF e j len] ne show False by simp
  qed
  then show ?thesis by (simp add: guess_type_def)
qed

theorem guess_type_case_sensitive_witness:
  "''.JS'' \<in> {''.JS'', ''.Js'', ''.jS''} \<and> endswith ''/GAME.JS'' ''.JS'' \<and>
   \<not> endswith ''/GAME.JS'' ''.js'' \<and>
   guess_type (\<lambda>p. ''text/javascript'') ''/GAME.JS'' = ''text/javascript''"
proof -
  have m: "''.JS'' \<in> {''.JS'', ''.Js'', ''.jS''}" by simp
  have e: "endswith ''/GAME.JS'' ''.JS''" by (simp add: endswith_def)
  from guess_type_case_sensitive [OF m e, of "\<lambda>p. ''text/javascript''"] m e
  show ?thesis by simp
qed

subsection \<open>The port\<close>

text \<open>
  C2. Started with no command-line argument (\<open>sys.argv\<close> holds the script name at
  most), the script uses port 8000: that is the port it computes, the run is the one
  \<open>start_server\<close> makes with its default, and its first effect is to bind
  \<open>localhost:8000\<close>.
\<close>

theorem no_argument_port_8000:
  "length argv \<le> 1 \<Longrightarrow>
     script_port world argv = Inr 8000 \<and>
     main world argv = start_server world None \<and>
     take 1 (fst (main world argv)) = [Bind ''localhost'' 8000]"
  using start_server_begins_with_bind [of world 8000]
  by (simp add: script_port_def main_def start_server_def)

theorem no_argument_port_8000_witness:
  "length [''server.py''] \<le> 1 \<and>
   script_port serving [''server.py''] = Inr 8000 \<and>
   main serving [''server.py''] = start_server serving None \<and>
   take 1 (fst (main serving [''server.py''])) = [Bind ''localhost'' 8000]"
proof -
  have h: "length [''server.py''] \<le> 1" by simp
  from no_argument_port_8000 [OF h, of serving] h show ?thesis by blast
qed

text \<open>
  C5. When the first command-line argument reads as the integer \<open>P\<close>, that integer is
  the port handed to \<open>start_server\<close>, and the first effect of the run is the attempt
  to bind \<open>localhost\<close> at port \<open>P\<close>, however the attempt ends.
\<close>

theorem numeric_argument_binds:
  "1 < length argv \<Longrightarrow> int_parse world (argv ! 1) = Some P \<Longrightarrow>
     script_port world argv = Inr P \<and>
     main world argv = start_server world (Some P) \<and>
     take 1 (fst (main world argv)) = [Bind ''localhost'' P]"
  using start_server_begins_with_bind [of world P]
  by (simp add: script_port_def main_def)

theorem numeric_argument_binds_witness:
  "1 < length [''server.py'', ''8080''] \<and>
   int_parse serving ([''server.py'', ''8080''] ! 1) = Some 8080 \<and>
   script_port serving [''server.py'', ''8080''] = Inr 8080 \<and>
   take 1 (fst (main serving [''server.py'', ''8080''])) = [Bind ''localhost'' 8080]"
proof -
  have len: "1 < length [''server.py'', ''8080'']" by simp
  have parse: "int_parse serving ([''server.py'', ''8080''] ! 1) = Some 8080"
    by (simp add: serving_def py_int_8080)
  from numeric_argument_binds [OF len parse] len parse show ?thesis by blast
qed

text \<open>
  C9. When the first command-line argument is present and \<open>int\<close> rejects it, the
  script ends with an uncaught \<open>ValueError\<close> and has had no effect: no server is
  built, no socket bound, and \<open>start_server\<close> with its \<open>except\<close> clauses is not
  entered.
\<close>

theorem unparseable_argument_raises:
  "1 < length argv \<Longrightarrow> int_parse world (argv ! 1) = None \<Longrightarrow>
     script_port world argv = Inl ValueError \<and>
     main world argv = ([], Raises ValueError) \<and>
     process_exit (snd (main world argv)) = Some Exit_nonzero"
  by (simp add: script_port_def main_def)

theorem unparseable_argument_raises_witness:
  "1 < length [''server.py'', ''abc''] \<and>
   int_parse serving ([''server.py'', ''abc''] ! 1) = None \<and>
   main serving [''server.py'', ''abc''] = ([], Raises ValueError)"
proof -
  have len: "1 < length [''server.py'', ''abc'']" by simp
  have parse: "int_parse serving ([''server.py'', ''abc''] ! 1) = None"
    by (simp add: serving_def py_int_abc)
  from unparseable_argument_raises [OF len parse] len parse show ?thesis by blast
qed

subsection \<open>Starting, failing and stopping\<close>

text \<open>
  C3. For every port \<open>P\<close>, when binding \<open>localhost:P\<close> fails with an \<open>OSError\<close>,
  the run consists of the bind attempt and one printed line,
  \<open>Port P in use. Try: python server.py Q\<close> with \<open>Q = P + 1\<close>; the function then
  returns, and the serve loop is never entered.
\<close>

theorem bind_oserror_message:
  "bind_result world ''localhost'' P = Raises OSError \<Longrightarrow>
     start_server world (Some P) =
       ([Bind ''localhost'' P,
         Print (''Port '' @ str_int P @ '' in use. Try: python server.py ''
                @ str_int (P + 1))],
        Returns) \<and>
     Serve_forever \<notin> set (fst (start_server world (Some P)))"
  by (simp add: start_server_def)

theorem bind_oserror_message_witness:
  "bind_result port_taken ''localhost'' 8000 = Raises OSError \<and>
   start_server port_taken (Some 8000) =
     ([Bind ''localhost'' 8000,
       Print ''Port 8000 in use. Try: python server.py 8001''],
      Returns)"
proof -
  have h: "bind_result port_taken ''localhost'' 8000 = Raises OSError"
    by (simp add: port_taken_def)
  from bind_oserror_message [OF h] h show ?thesis
    by (simp add: str_int_8000 str_int_8001)
qed

text \<open>
  C4. When the bind succeeds and a \<open>KeyboardInterrupt\<close> is raised in the serve loop,
  the exception is caught: the stop message is printed as the last effect and
  \<open>start_server\<close> returns, so no exception leaves it.
\<close>

theorem keyboard_interrupt_in_serve_loop:
  "bind_result world ''localhost'' P = Returns \<Longrightarrow>
   serve_forever_result world = Raises KeyboardInterrupt \<Longrightarrow>
     start_server world (Some P) =
       ([Bind ''localhost'' P,
         Print (''Server running at http://localhost:'' @ str_int P @ ''/index.html''),
         Print ''Press Ctrl+C to stop'',
         Timer_start 1 (Webbrowser_open (''http://localhost:'' @ str_int P @ ''/index.html'')),
         Serve_forever,
         Print (CHR 0x0A # ''Server stopped'')],
        Returns)"
  by (simp add: start_server_def Let_def)

theorem keyboard_interrupt_in_serve_loop_witness:
  "bind_result interrupted ''localhost'' 8000 = Returns \<and>
   serve_forever_result interrupted = Raises KeyboardInterrupt \<and>
   start_server interrupted (Some 8000) =
     ([Bind ''localhost'' 8000,
       Print ''Server running at http://localhost:8000/index.html'',
       Print ''Press Ctrl+C to stop'',
       Timer_start 1 (Webbrowser_open ''http://localhost:8000/index.html''),
       Serve_forever,
       Print (CHR 0x0A # ''Server stopped'')],
      Returns)"
proof -
  have b: "bind_result interrupted ''localhost'' 8000 = Returns"
    by (simp add: interrupted_def)
  have s: "serve_forever_result interrupted = Raises KeyboardInterrupt"
    by (simp add: interrupted_def)
  from keyboard_interrupt_in_serve_loop [OF b s] b s show ?thesis
    by (simp add: str_int_8000)
qed

text \<open>
  C7. After a successful bind on port \<open>P\<close>, the run starts exactly one timer, however
  the serve loop ends. The timer is a one-shot \<open>threading.Timer\<close> with an interval of
  1 second whose callback opens \<open>http://localhost:P/index.html\<close> in the browser, and
  it is started after the two start-up lines are printed and before the serve loop is
  entered.
\<close>

theorem browser_open_scheduled_once:
  "bind_result world ''localhost'' P = Returns \<Longrightarrow>
     filter is_timer (fst (start_server world (Some P))) =
       [Timer_start 1 (Webbrowser_open (''http://localhost:'' @ str_int P @ ''/index.html''))] \<and>
     take 5 (fst (start_server world (Some P))) =
       [Bind ''localhost'' P,
        Print (''Server running at http://localhost:'' @ str_int P @ ''/index.html''),
        Print ''Press Ctrl+C to stop'',
        Timer_start 1 (Webbrowser_open (''http://localhost:'' @ str_int P @ ''/index.html'')),
        Serve_forever]"
proof -
  assume b: "bind_result world ''localhost'' P = Returns"
  let ?url = "''http://localhost:'' @ str_int P @ ''/index.html''"
  let ?evs = "[Bind ''localhost'' P, Print (''Server running at '' @ ?url),
               Print ''Press Ctrl+C to stop'', Timer_start 1 (Webbrowser_open ?url),
               Serve_forever]"
  show ?thesis
  proof (cases "serve_forever_result world")
    case Returns
    with b show ?thesis by (simp add: start_server_def Let_def)
  next
    case (Raises e)
    with b have run: "start_server world (Some P) = except_clauses P ?evs e"
      by (simp add: start_server_def Let_def)
    obtain tail where tail: "fst (except_clauses P ?evs e) = ?evs @ tail"
      and none: "filter is_timer tail = []"
      using except_clauses_appends [of P ?evs e] by blast
    from run tail have "fst (start_server world (Some P)) = ?evs @ tail" by simp
    with none show ?thesis by simp
  next
    case Blocks
    with b show ?thesis by (simp add: start_server_def Let_def)
  qed
qed

theorem browser_open_scheduled_once_witness:
  "bind_result serving ''localhost'' 8000 = Returns \<and>
   filter is_timer (fst (start_server serving (Some 8000))) =
     [Timer_start 1 (Webbrowser_open ''http://localhost:8000/index.html'')]"
proof -
  have b: "bind_result serving ''localhost'' 8000 = Returns" by (simp add: serving_def)
  from browser_open_scheduled_once [OF b] b show ?thesis by (simp add: str_int_8000)
qed

text \<open>
  C8. On both handled error paths, an \<open>OSError\<close> and a \<open>KeyboardInterrupt\<close>,
  whether raised by the bind or in the serve loop, \<open>start_server\<close> prints a message
  as its last effect and returns instead of raising; the script, which ends with that
  call, then exits with status zero.
\<close>

theorem error_paths_return_normally:
  assumes "script_port world argv = Inr P"
    and "e = OSError \<or> e = KeyboardInterrupt"
    and "bind_result world ''localhost'' P = Raises e \<or>
         (bind_result world ''localhost'' P = Returns \<and> serve_forever_result world = Raises e)"
  shows "snd (start_server world (Some P)) = Returns \<and>
         is_print (last (fst (start_server world (Some P)))) \<and>
         snd (main world argv) = Returns \<and>
         process_exit (snd (main world argv)) = Some Exit_zero"
proof -
  have m: "main world argv = start_server world (Some P)"
    using assms(1) by (simp add: main_def)
  have "snd (start_server world (Some P)) = Returns \<and>
        is_print (last (fst (start_server world (Some P))))"
    using assms(2,3) by (auto simp: start_server_def Let_def)
  with m show ?thesis by simp
qed

theorem error_paths_return_normally_witness:
  "script_port port_taken [''server.py'', ''8080''] = Inr 8080 \<and>
   bind_result port_taken ''localhost'' 8080 = Raises OSError \<and>
   snd (main port_taken [''server.py'', ''8080'']) = Returns \<and>
   process_exit (snd (main port_taken [''server.py'', ''8080''])) = Some Exit_zero \<and>
   script_port interrupted [''server.py''] = Inr 8000 \<and>
   bind_result interrupted ''localhost'' 8000 = Returns \<and>
   serve_forever_result interrupted = Raises KeyboardInterrupt \<and>
   snd (main interrupted [''server.py'']) = Returns \<and>
   process_exit (snd (main interrupted [''server.py''])) = Some Exit_zero"
proof -
  have p1: "script_port port_taken [''server.py'', ''8080''] = Inr 8080"
    by (simp add: script_port_def port_taken_def py_int_8080)
  have b1: "bind_result port_taken ''localhost'' 8080 = Raises OSError"
    by (simp add: port_taken_def)
  have p2: "script_port interrupted [''server.py''] = Inr 8000"
    by (simp add: script_port_def)
  have b2: "bind_result interrupted ''localhost'' 8000 = Returns"
    by (simp add: interrupted_def)
  have s2: "serve_forever_result interrupted = Raises KeyboardInterrupt"
    by (simp add: interrupted_def)
  have r1: "snd (main port_taken [''server.py'', ''8080'']) = Returns \<and>
            process_exit (snd (main port_taken [''server.py'', ''8080''])) = Some Exit_zero"
    using error_paths_return_normally [OF p1, of OSError] b1 by blast
  have r2: "snd (main interrupted [''server.py'']) = Returns \<and>
            process_exit (snd (main interrupted [''server.py''])) = Some Exit_zero"
    using error_paths_return_normally [OF p2, of KeyboardInterrupt] b2 s2 by blast
  from p1 b1 p2 b2 s2 r1 r2 show ?thesis by blast
qed

end
